theory Spec2Isabelle
  imports Main
begin

section \<open>Entities (internal/entities/note.go)\<close>

text \<open>
  Timestamps are readings of the engine's \<open>CURRENT_TIMESTAMP\<close>, which has a resolution
  of one second: a timestamp is the number of seconds of that reading. Strings are Go
  strings, sequences of bytes; \<open>length\<close> is Go's \<open>len\<close>. Go's \<open>int\<close> is modelled by
  \<open>int\<close>: the storage code does no arithmetic on it, only comparisons.
\<close>

type_synonym timestamp = nat

record Note =
  ID :: int
  Title :: string
  Content :: string
  CreatedAt :: timestamp
  LastEditedAt :: timestamp


section \<open>Errors\<close>

text \<open>
  The error values the program handles: the two validation errors of the storage
  (\<open>errors.New("invalid number")\<close>, \<open>errors.New("invalid param length")\<close>),
  \<open>sql.ErrNoRows\<close>, any other error of the database driver (with its message), the
  \<open>*strconv.NumError\<close> of \<open>strconv.Atoi\<close> (with the input and the reason), and the
  errors built by \<open>fmt.Errorf\<close> (with their formatted message).
\<close>

datatype atoi_reason = ErrSyntax | ErrRange

datatype error =
    invalidNum
  | invalidParamLength
  | ErrNoRows
  | DriverError string
  | NumError string atoi_reason
  | Errorf string

fun Error :: "error \<Rightarrow> string" where
  "Error invalidNum = ''invalid number''"
| "Error invalidParamLength = ''invalid param length''"
| "Error ErrNoRows = ''sql: no rows in result set''"
| "Error (DriverError msg) = msg"
| "Error (NumError s ErrSyntax) = ''strconv.Atoi: parsing \"'' @ s @ ''\": invalid syntax''"
| "Error (NumError s ErrRange) = ''strconv.Atoi: parsing \"'' @ s @ ''\": value out of range''"
| "Error (Errorf msg) = msg"

text \<open>
  The spec's error kinds: \<open>InvalidParameter\<close> is either validation error, \<open>NotFound\<close>
  is \<open>sql.ErrNoRows\<close>.
\<close>

definition InvalidParameter :: "error \<Rightarrow> bool" where
  "InvalidParameter e = (e = invalidNum \<or> e = invalidParamLength)"

definition NotFound :: "error \<Rightarrow> bool" where
  "NotFound e = (e = ErrNoRows)"


section \<open>The notes table (schema of \<open>New\<close> in the sqlite storage)\<close>

text \<open>
  One row of \<open>notes (note_id INTEGER PRIMARY KEY, title TEXT NOT NULL, content TEXT,
  created_at TIMESTAMP DEFAULT CURRENT_TIMESTAMP, last_edited_at TIMESTAMP DEFAULT
  CURRENT_TIMESTAMP)\<close>. The table is the list of its rows in the order a
  \<open>SELECT * FROM notes\<close> visits them. The code only ever writes strings to
  \<open>content\<close>, so the column is a string here, never NULL.
\<close>

record row =
  note_id :: int
  title :: string
  content :: string
  created_at :: timestamp
  last_edited_at :: timestamp

type_synonym db = "row list"

text \<open>
  What a statement reads from its surroundings: the clock (the value
  \<open>CURRENT_TIMESTAMP\<close> has while the statement runs) and whether the engine fails on
  the statement (\<open>Prepare\<close>, \<open>Exec\<close> or \<open>Query\<close> returning an error, in which case the
  table is left as it was).
\<close>

record env =
  clock :: timestamp
  failure :: "error option"

text \<open>\<open>rows.Scan(&note.ID, &note.Title, &note.Content, &note.CreatedAt, &note.LastEditedAt)\<close>\<close>

definition Scan :: "row \<Rightarrow> Note" where
  "Scan r = \<lparr>ID = note_id r, Title = title r, Content = content r,
     CreatedAt = created_at r, LastEditedAt = last_edited_at r\<rparr>"

text \<open>
  The rowid the engine gives to an \<open>INSERT\<close> that names no \<open>note_id\<close>: the column is
  \<open>INTEGER PRIMARY KEY\<close> without \<open>AUTOINCREMENT\<close>, so it is one more than the largest
  id in the table, and 1 in an empty table. (The engine's fallback once the largest id
  is \<open>2^63 - 1\<close>, an unused id chosen at random, is outside this model.)
\<close>

definition new_rowid :: "db \<Rightarrow> int" where
  "new_rowid d = (if d = [] then 1 else Max (set (map note_id d)) + 1)"

text \<open>
  The trigger \<open>update_last_edited_at\<close>: \<open>AFTER UPDATE ON notes FOR EACH ROW\<close> it runs
  \<open>UPDATE notes SET last_edited_at = CURRENT_TIMESTAMP WHERE note_id = OLD.note_id\<close>.
  (Triggers are not recursive in the engine's default configuration, which the code does
  not change: the trigger's own update does not fire it again.)
\<close>

definition update_last_edited_at :: "timestamp \<Rightarrow> int \<Rightarrow> db \<Rightarrow> db" where
  "update_last_edited_at now old_note_id d =
     map (\<lambda>r. if note_id r = old_note_id then r\<lparr>last_edited_at := now\<rparr> else r) d"


section \<open>Parameter validation (\<open>validateSQLParam\<close>)\<close>

text \<open>The variadic \<open>interface{}\<close> parameters, by the dynamic types the callers pass.\<close>

datatype param = PInt int | PStr string

definition MaxInt32 :: int where
  "MaxInt32 = 2147483647"

definition maxStringLength :: nat where
  "maxStringLength = 256000"

fun validateSQLParam :: "param list \<Rightarrow> error option" where
  "validateSQLParam [] = None"
| "validateSQLParam (PInt v # params) =
     (if v < 1 \<or> v > MaxInt32 then Some invalidNum else validateSQLParam params)"
| "validateSQLParam (PStr v # params) =
     (if length v < 1 \<or> length v > maxStringLength then Some invalidParamLength
      else validateSQLParam params)"


section \<open>The \<open>LIKE\<close> operator of the engine\<close>

text \<open>
  \<open>SearchNotesByKeyword\<close> leaves the matching to the engine's \<open>LIKE\<close>. As the engine
  documents it: a percent sign in the pattern matches any sequence of zero or more
  characters of the string, an underscore matches any single character, and any other
  character matches itself or its lower or upper case equivalent; the case folding is
  that of the ASCII letters, and is on unless the connection sets
  \<open>case_sensitive_like\<close>, which \<open>sql.Open("sqlite3", storagePath)\<close> does not.
  Characters are bytes here, which is exact for ASCII text.
\<close>

definition UpperToLower :: "(char \<times> char) list" where
  "UpperToLower = zip ''ABCDEFGHIJKLMNOPQRSTUVWXYZ'' ''abcdefghijklmnopqrstuvwxyz''"

definition Tolower :: "char \<Rightarrow> char" where
  "Tolower c = (case map_of UpperToLower c of None \<Rightarrow> c | Some l \<Rightarrow> l)"

fun LIKE :: "string \<Rightarrow> string \<Rightarrow> bool" where
  "LIKE [] s = (s = [])"
| "LIKE (p # ps) [] = (p = CHR ''%'' \<and> LIKE ps [])"
| "LIKE (p # ps) (c # cs) =
     (if p = CHR ''%'' then LIKE ps (c # cs) \<or> LIKE (p # ps) cs
      else (p = CHR ''_'' \<or> Tolower p = Tolower c) \<and> LIKE ps cs)"


section \<open>The storage operations (sqlite storage)\<close>

text \<open>
  Each operation takes the table and returns its result with the table afterwards. An
  error return is \<open>Inl\<close> (the zero value Go returns beside it is dropped).
\<close>

definition NewNote :: "env \<Rightarrow> string \<Rightarrow> string \<Rightarrow> db \<Rightarrow> (error + int) \<times> db" where
  "NewNote e noteTitle c d =
     (case validateSQLParam [PStr noteTitle, PStr c] of
        Some err \<Rightarrow> (Inl err, d)
      | None \<Rightarrow>
          (case failure e of
             Some err \<Rightarrow> (Inl err, d)
           | None \<Rightarrow>
               (Inr (new_rowid d),
                d @ [\<lparr>note_id = new_rowid d, title = noteTitle, content = c,
                       created_at = clock e, last_edited_at = clock e\<rparr>])))"

definition DeleteNote :: "env \<Rightarrow> int \<Rightarrow> db \<Rightarrow> (error + int) \<times> db" where
  "DeleteNote e i d =
     (case validateSQLParam [PInt i] of
        Some err \<Rightarrow> (Inl err, d)
      | None \<Rightarrow>
          (case failure e of
             Some err \<Rightarrow> (Inl err, d)
           | None \<Rightarrow>
               (let rowsAffected = length (filter (\<lambda>r. note_id r = i) d);
                    d' = filter (\<lambda>r. note_id r \<noteq> i) d
                in if rowsAffected = 0 then (Inl ErrNoRows, d') else (Inr i, d'))))"

definition SetNoteContent :: "env \<Rightarrow> int \<Rightarrow> string \<Rightarrow> db \<Rightarrow> error option \<times> db" where
  "SetNoteContent e noteID c d =
     (case validateSQLParam [PInt noteID, PStr c] of
        Some err \<Rightarrow> (Some err, d)
      | None \<Rightarrow>
          (case failure e of
             Some err \<Rightarrow> (Some err, d)
           | None \<Rightarrow>
               (let rowsAffected = length (filter (\<lambda>r. note_id r = noteID) d);
                    updated = map (\<lambda>r. if note_id r = noteID then r\<lparr>content := c\<rparr> else r) d
                in if rowsAffected = 0 then (Some ErrNoRows, updated)
                   else (None, update_last_edited_at (clock e) noteID updated))))"

definition SearchNotesByKeyword :: "env \<Rightarrow> string \<Rightarrow> db \<Rightarrow> (error + Note list) \<times> db" where
  "SearchNotesByKeyword e keyword d =
     (case validateSQLParam [PStr keyword] of
        Some err \<Rightarrow> (Inl err, d)
      | None \<Rightarrow>
          (let keywordPattern = ''%'' @ keyword @ ''%'' in
           case failure e of
             Some err \<Rightarrow> (Inl err, d)
           | None \<Rightarrow>
               (Inr (map Scan
                  (filter (\<lambda>r. LIKE keywordPattern (title r) \<or> LIKE keywordPattern (content r)) d)),
                d)))"

definition GetNoteByID :: "env \<Rightarrow> int \<Rightarrow> db \<Rightarrow> (error + Note) \<times> db" where
  "GetNoteByID e noteID d =
     (case validateSQLParam [PInt noteID] of
        Some err \<Rightarrow> (Inl err, d)
      | None \<Rightarrow>
          (case failure e of
             Some err \<Rightarrow> (Inl err, d)
           | None \<Rightarrow>
               (case filter (\<lambda>r. note_id r = noteID) d of
                  [] \<Rightarrow> (Inl ErrNoRows, d)
                | r # _ \<Rightarrow> (Inr (Scan r), d))))"

definition GetAllNotes :: "env \<Rightarrow> db \<Rightarrow> (error + Note list) \<times> db" where
  "GetAllNotes e d =
     (case failure e of
        Some err \<Rightarrow> (Inl err, d)
      | None \<Rightarrow> (Inr (map Scan d), d))"

text \<open>
  \<open>sqlite.New\<close>: opens the database file, creates the table and the trigger if they do
  not exist yet. \<open>db_in_file\<close> is the table in the file, \<open>None\<close> when there is no file yet;
  an error of \<open>sql.Open\<close>, \<open>Prepare\<close> or \<open>Exec\<close> is returned as it is.
\<close>

definition New :: "error option \<Rightarrow> db option \<Rightarrow> error + db" where
  "New opening db_in_file =
     (case opening of
        Some err \<Rightarrow> Inl err
      | None \<Rightarrow> (case db_in_file of None \<Rightarrow> Inr [] | Some d \<Rightarrow> Inr d))"


section \<open>The command line (internal/cli)\<close>

subsection \<open>Library functions the commands call\<close>

text \<open>
  \<open>strconv.Atoi\<close>: an optional sign, then decimal digits only, read left to right; the
  first byte that is not a digit is a syntax error, and a value that leaves the unsigned
  64-bit range while it is read, or the signed 64-bit range at the end, is a range error.
\<close>

definition digit_val :: "char \<Rightarrow> int option" where
  "digit_val c = map_of (zip ''0123456789'' [0, 1, 2, 3, 4, 5, 6, 7, 8, 9]) c"

fun ParseUint :: "string \<Rightarrow> int \<Rightarrow> atoi_reason + int" where
  "ParseUint [] n = Inr n"
| "ParseUint (c # cs) n =
     (case digit_val c of
        None \<Rightarrow> Inl ErrSyntax
      | Some v \<Rightarrow>
          (if n * 10 + v > 18446744073709551615 then Inl ErrRange
           else ParseUint cs (n * 10 + v)))"

definition Atoi :: "string \<Rightarrow> error + int" where
  "Atoi s =
     (if s = [] then Inl (NumError s ErrSyntax)
      else
        (let neg = (hd s = CHR ''-'');
             digits = (if hd s = CHR ''+'' \<or> hd s = CHR ''-'' then tl s else s)
         in if digits = [] then Inl (NumError s ErrSyntax)
            else
              (case ParseUint digits 0 of
                 Inl reason \<Rightarrow> Inl (NumError s reason)
               | Inr un \<Rightarrow>
                   (if \<not> neg \<and> un \<ge> 9223372036854775808 then Inl (NumError s ErrRange)
                    else if neg \<and> un > 9223372036854775808 then Inl (NumError s ErrRange)
                    else Inr (if neg then - un else un)))))"

text \<open>The verb \<open>%d\<close> of \<open>fmt\<close>: an integer in decimal.\<close>

fun decimal :: "nat \<Rightarrow> string" where
  "decimal n =
     (if n < 10 then [''0123456789'' ! n]
      else decimal (n div 10) @ [''0123456789'' ! (n mod 10)])"

declare decimal.simps [simp del]

definition Itoa :: "int \<Rightarrow> string" where
  "Itoa i = (if i < 0 then CHR ''-'' # decimal (nat (- i)) else decimal (nat i))"

text \<open>\<open>c.Args().First()\<close> and \<open>c.Args().Get(n)\<close>: the argument, or the empty string.\<close>

definition Args_First :: "string list \<Rightarrow> string" where
  "Args_First args = (case args of [] \<Rightarrow> [] | a # _ \<Rightarrow> a)"

definition Args_Get :: "nat \<Rightarrow> string list \<Rightarrow> string" where
  "Args_Get n args = (if n < length args then args ! n else [])"

subsection \<open>The \<open>Storage\<close> interface\<close>

record 's Storage =
  Storage_NewNote :: "string \<Rightarrow> string \<Rightarrow> 's \<Rightarrow> (error + int) \<times> 's"
  Storage_DeleteNote :: "int \<Rightarrow> 's \<Rightarrow> (error + int) \<times> 's"
  Storage_SetNoteContent :: "int \<Rightarrow> string \<Rightarrow> 's \<Rightarrow> error option \<times> 's"
  Storage_GetNoteByID :: "int \<Rightarrow> 's \<Rightarrow> (error + Note) \<times> 's"
  Storage_GetAllNotes :: "'s \<Rightarrow> (error + Note list) \<times> 's"
  Storage_SearchNotesByKeyword :: "string \<Rightarrow> 's \<Rightarrow> (error + Note list) \<times> 's"

text \<open>The sqlite storage as a \<open>Storage\<close>, for the statement it is about to run.\<close>

definition sqlite_Storage :: "env \<Rightarrow> db Storage" where
  "sqlite_Storage e =
     \<lparr>Storage_NewNote = NewNote e,
      Storage_DeleteNote = DeleteNote e,
      Storage_SetNoteContent = SetNoteContent e,
      Storage_GetNoteByID = GetNoteByID e,
      Storage_GetAllNotes = GetAllNotes e,
      Storage_SearchNotesByKeyword = SearchNotesByKeyword e\<rparr>"

subsection \<open>The commands\<close>

text \<open>
  An \<open>Action\<close> gets the positional arguments of the command (\<open>c.Args()\<close>) and the
  storage's state; it returns what it printed to standard output (one string for each
  \<open>Println\<close> or \<open>Printf\<close>, in order), the error it returned (\<open>None\<close> is \<open>nil\<close>) and the
  state afterwards. \<open>tfmt\<close> is the text \<open>%s\<close> prints for a \<open>time.Time\<close>.
\<close>

type_synonym 's Action = "string list \<Rightarrow> 's \<Rightarrow> (string list \<times> error option) \<times> 's"

definition show_found :: "(timestamp \<Rightarrow> string) \<Rightarrow> Note \<Rightarrow> string" where
  "show_found tfmt note =
     ''ID: '' @ Itoa (ID note) @ '', Title: '' @ Title note @ '', Content: '' @ Content note
       @ '', CreatedAt: '' @ tfmt (CreatedAt note)
       @ '', LastEditedAt: '' @ tfmt (LastEditedAt note) @ ''\<newline>''"

definition show_listed :: "(timestamp \<Rightarrow> string) \<Rightarrow> Note \<Rightarrow> string" where
  "show_listed tfmt note =
     ''ID: '' @ Itoa (ID note) @ '', Title: '' @ Title note
       @ '', CreatedAt: '' @ tfmt (CreatedAt note)
       @ '', LastEditedAt: '' @ tfmt (LastEditedAt note) @ ''\<newline>''"

definition show_note :: "(timestamp \<Rightarrow> string) \<Rightarrow> Note \<Rightarrow> string" where
  "show_note tfmt note =
     ''Note ID: '' @ Itoa (ID note) @ ''\<newline>Title: '' @ Title note
       @ ''\<newline>Content: '' @ Content note
       @ ''\<newline>CreatedAt: '' @ tfmt (CreatedAt note)
       @ ''\<newline>LastEditedAt: '' @ tfmt (LastEditedAt note) @ ''\<newline>''"

definition updateNoteContentCommand :: "'s Storage \<Rightarrow> 's Action" where
  "updateNoteContentCommand storage args s =
     (let noteIDStr = Args_First args in
      if noteIDStr = [] then (([''Please provide ID of note to update.\<newline>''], None), s)
      else
        (case Atoi noteIDStr of
           Inl err \<Rightarrow> (([], Some (Errorf (''invalid note ID: '' @ Error err))), s)
         | Inr noteID \<Rightarrow>
             (let c = Args_Get 1 args in
              if c = [] then (([''Please provide content to update note.\<newline>''], None), s)
              else
                (case Storage_SetNoteContent storage noteID c s of
                   (Some err, s') \<Rightarrow> (([], Some (Errorf (''updating note: '' @ Error err))), s')
                 | (None, s') \<Rightarrow>
                     (([''Updated note with ID '' @ Itoa noteID @ ''\<newline>''], None), s')))))"

definition searchNotesCommand :: "'s Storage \<Rightarrow> (timestamp \<Rightarrow> string) \<Rightarrow> 's Action" where
  "searchNotesCommand storage tfmt args s =
     (let keyword = Args_First args in
      if keyword = [] then
        (([''Please provide a keyword to search for notes.\<newline>''], None), s)
      else
        (case Storage_SearchNotesByKeyword storage keyword s of
           (Inl err, s') \<Rightarrow>
             (([''Error searching notes: '' @ Error err @ ''\<newline>''], Some err), s')
         | (Inr found, s') \<Rightarrow>
             (if length found = 0 then
                (([''No notes found for keyword: '' @ keyword @ ''\<newline>''], None), s')
              else
                (((''Notes found for keyword '' @ [CHR 0x27] @ keyword @ [CHR 0x27]
                     @ '':\<newline>'') # map (show_found tfmt) found, None), s'))))"

definition getNoteByIDCommand :: "'s Storage \<Rightarrow> (timestamp \<Rightarrow> string) \<Rightarrow> 's Action" where
  "getNoteByIDCommand storage tfmt args s =
     (let noteIDStr = Args_First args in
      if noteIDStr = [] then (([''Please provide ID of note to retrieve.\<newline>''], None), s)
      else
        (case Atoi noteIDStr of
           Inl err \<Rightarrow> (([], Some (Errorf (''invalid note ID: '' @ Error err))), s)
         | Inr noteID \<Rightarrow>
             (case Storage_GetNoteByID storage noteID s of
                (Inl err, s') \<Rightarrow> (([], Some (Errorf (''retrieving note: '' @ Error err))), s')
              | (Inr note, s') \<Rightarrow> (([show_note tfmt note], None), s'))))"

definition listNotesCommand :: "'s Storage \<Rightarrow> (timestamp \<Rightarrow> string) \<Rightarrow> 's Action" where
  "listNotesCommand storage tfmt args s =
     (case Storage_GetAllNotes storage s of
        (Inl err, s') \<Rightarrow> (([''Error listing notes: '' @ Error err @ ''\<newline>''], Some err), s')
      | (Inr found, s') \<Rightarrow>
          ((''List of notes:\<newline>'' # map (show_listed tfmt) found, None), s'))"

definition deleteNoteCommand :: "'s Storage \<Rightarrow> 's Action" where
  "deleteNoteCommand storage args s =
     (let noteIDStr = Args_First args in
      if noteIDStr = [] then (([], Some (Errorf ''please provide ID of note to delete'')), s)
      else
        (case Atoi noteIDStr of
           Inl err \<Rightarrow> (([], Some (Errorf (''invalid note ID: '' @ Error err))), s)
         | Inr noteID \<Rightarrow>
             (case Storage_DeleteNote storage noteID s of
                (Inl err, s') \<Rightarrow>
                  (([], Some (Errorf (''Error deleting note: '' @ Error err @ ''\<newline>''))), s')
              | (Inr deletedNoteID, s') \<Rightarrow>
                  (([''Deleted note with ID '' @ Itoa deletedNoteID @ ''\<newline>''], None), s'))))"

definition newNoteCommand :: "'s Storage \<Rightarrow> 's Action" where
  "newNoteCommand storage args s =
     (let t = Args_First args in
      if t = [] then (([''Please provide a title for new note.\<newline>''], None), s)
      else
        (let c = Args_Get 1 args in
         if c = [] then (([''Please provide content for new note.\<newline>''], None), s)
         else
           (case Storage_NewNote storage t c s of
              (Inl err, s') \<Rightarrow>
                (([], Some (Errorf (''creating new note: '' @ Error err @ ''\<newline>''))), s')
            | (Inr noteID, s') \<Rightarrow>
                (([''Created a new note with ID '' @ Itoa noteID @ ''\<newline>''], None), s'))))"

text \<open>\<open>NewCLI\<close>: the commands of the application, by name, in the order of the source.\<close>

definition NewCLI :: "'s Storage \<Rightarrow> (timestamp \<Rightarrow> string) \<Rightarrow> (string \<times> 's Action) list" where
  "NewCLI storage tfmt =
     [(''new'', newNoteCommand storage),
      (''delete'', deleteNoteCommand storage),
      (''get'', getNoteByIDCommand storage tfmt),
      (''list'', listNotesCommand storage tfmt),
      (''update'', updateNoteContentCommand storage),
      (''search'', searchNotesCommand storage tfmt)]"

text \<open>
  \<open>app.Run(os.Args)\<close>, for the invocations that reach one of the six actions:
  \<open>argv\<close> is the program's name, the command's name and the positional arguments. The
  library's own handling of other invocations (no command, an unknown command, its
  \<open>help\<close> command, and arguments that start with a dash, which it reads as flags) is not
  modelled: the result is \<open>None\<close> there.
\<close>

definition positional :: "string \<Rightarrow> bool" where
  "positional a = (case a of [] \<Rightarrow> True | c # _ \<Rightarrow> c \<noteq> CHR ''-'')"

definition Run :: "(string \<times> 's Action) list \<Rightarrow> string list \<Rightarrow> 's
    \<Rightarrow> ((string list \<times> error option) \<times> 's) option" where
  "Run app argv s =
     (case argv of
        prog # name # args \<Rightarrow>
          (if list_all positional args then
             (case map_of app name of
                None \<Rightarrow> None
              | Some action \<Rightarrow> Some (action args s))
           else None)
      | _ \<Rightarrow> None)"


section \<open>The program (cmd/main.go)\<close>

text \<open>
  What one run of the program meets: the table in \<open>storage.db\<close> (\<open>None\<close>: no file yet),
  whether opening the storage fails, the surroundings of the one statement the command
  runs, and whether closing the storage fails.
\<close>

record world =
  db_file :: "db option"
  open_error :: "error option"
  stmt :: env
  close_error :: "error option"

text \<open>
  \<open>main\<close> returns what the program printed to standard output, its exit code and the
  table in the file afterwards. \<open>os.Exit(1)\<close> is called only when the storage cannot be
  initialised; every other path returns from \<open>main\<close>, which is exit code 0.
\<close>

definition main :: "world \<Rightarrow> (timestamp \<Rightarrow> string) \<Rightarrow> string list
    \<Rightarrow> (string list \<times> int \<times> db option) option" where
  "main w tfmt argv =
     (case New (open_error w) (db_file w) of
        Inl err \<Rightarrow>
          Some ([''Error initializing storage: '' @ Error err @ ''\<newline>''], 1, db_file w)
      | Inr d \<Rightarrow>
          (case Run (NewCLI (sqlite_Storage (stmt w)) tfmt) argv d of
             None \<Rightarrow> None
           | Some ((out, err), d') \<Rightarrow>
               Some (out
                  @ (case err of None \<Rightarrow> [] | Some e \<Rightarrow> [''Error: '' @ Error e @ ''\<newline>''])
                  @ (case close_error w of
                       None \<Rightarrow> []
                     | Some e \<Rightarrow> [''Error closing storage: '' @ Error e @ ''\<newline>'']),
                  0, Some d')))"


section \<open>Notions the properties are stated with\<close>

text \<open>
  The tables the program can build: it starts from the empty table of a new file, and
  every run changes the table by at most one of the three writing operations.
\<close>

inductive reachable :: "db \<Rightarrow> bool" where
  reachable_New: "reachable []"
| reachable_NewNote: "reachable d \<Longrightarrow> reachable (snd (NewNote e t c d))"
| reachable_DeleteNote: "reachable d \<Longrightarrow> reachable (snd (DeleteNote e i d))"
| reachable_SetNoteContent: "reachable d \<Longrightarrow> reachable (snd (SetNoteContent e i c d))"

text \<open>What the schema and the operations keep true of the table: ids are unique and positive.\<close>

definition db_inv :: "db \<Rightarrow> bool" where
  "db_inv d = (distinct (map note_id d) \<and> list_all (\<lambda>r. 1 \<le> note_id r) d)"



text \<open>
  The specification's reading of the search, in its words: the text contains the keyword
  ``as a case-sensitive literal substring''.
\<close>

fun prefix_literal :: "string \<Rightarrow> string \<Rightarrow> bool" where
  "prefix_literal [] s = True"
| "prefix_literal (k # ks) [] = False"
| "prefix_literal (k # ks) (c # cs) = (k = c \<and> prefix_literal ks cs)"

fun contains_literal :: "string \<Rightarrow> string \<Rightarrow> bool" where
  "contains_literal k [] = prefix_literal k []"
| "contains_literal k (c # cs) = (prefix_literal k (c # cs) \<or> contains_literal k cs)"


section \<open>Properties\<close>

subsection \<open>Validation\<close>

lemma validate_PInt:
  "validateSQLParam [PInt i] = (if i < 1 \<or> 2147483647 < i then Some invalidNum else None)"
  by (simp add: MaxInt32_def)


lemma validate_PStr_PStr:
  "validateSQLParam [PStr t, PStr c] =
     (if length t < 1 \<or> 256000 < length t \<or> length c < 1 \<or> 256000 < length c
      then Some invalidParamLength else None)"
  by (simp add: maxStringLength_def)

lemma validate_PInt_PStr:
  "validateSQLParam [PInt i, PStr c] =
     (if i < 1 \<or> 2147483647 < i then Some invalidNum
      else if length c < 1 \<or> 256000 < length c then Some invalidParamLength else None)"
  by (simp add: maxStringLength_def MaxInt32_def)




subsection \<open>Ids\<close>

lemma new_rowid_above: "r \<in> set d \<Longrightarrow> note_id r < new_rowid d"
proof -
  assume r: "r \<in> set d"
  then have ne: "d \<noteq> []" by auto
  have "note_id r \<le> Max (set (map note_id d))"
    using r by (intro Max_ge) auto
  with ne show ?thesis by (simp add: new_rowid_def)
qed

lemma new_rowid_fresh: "filter (\<lambda>r. note_id r = new_rowid d) d = []"
  by (fastforce simp: filter_empty_conv dest: new_rowid_above)

lemma new_rowid_positive: "db_inv d \<Longrightarrow> 0 < new_rowid d"
proof (cases d)
  case Nil
  then show ?thesis by (simp add: new_rowid_def)
next
  case (Cons r rs)
  assume "db_inv d"
  with Cons have "1 \<le> note_id r" by (simp add: db_inv_def)
  moreover have "note_id r < new_rowid d" using Cons by (intro new_rowid_above) simp
  ultimately show ?thesis by simp
qed

lemma NewNote_ok:
  assumes "1 \<le> length t" "length t \<le> 256000" "1 \<le> length c" "length c \<le> 256000"
    and "failure e = None"
  shows "NewNote e t c d =
    (Inr (new_rowid d),
     d @ [\<lparr>note_id = new_rowid d, title = t, content = c,
            created_at = clock e, last_edited_at = clock e\<rparr>])"
  using assms unfolding NewNote_def validate_PStr_PStr by auto

subsection \<open>The invariant\<close>

lemma db_inv_Nil: "db_inv []"
  by (simp add: db_inv_def)

lemma db_inv_NewNote: "db_inv d \<Longrightarrow> db_inv (snd (NewNote e t c d))"
proof -
  assume inv: "db_inv d"
  have "new_rowid d \<notin> note_id ` set d"
    using new_rowid_above [of _ d] by force
  moreover have "1 \<le> new_rowid d"
    using new_rowid_positive [OF inv] by simp
  ultimately show ?thesis
    using inv by (auto simp: NewNote_def db_inv_def split: option.splits)
qed

lemma db_inv_DeleteNote: "db_inv d \<Longrightarrow> db_inv (snd (DeleteNote e i d))"
  by (auto simp: DeleteNote_def db_inv_def Let_def distinct_map_filter list_all_iff
      split: option.splits)

lemma db_inv_SetNoteContent: "db_inv d \<Longrightarrow> db_inv (snd (SetNoteContent e i c d))"
proof -
  have ids: "map note_id (update_last_edited_at n i
      (map (\<lambda>r. if note_id r = i then r\<lparr>content := c\<rparr> else r) d)) = map note_id d" for n
    by (induction d) (auto simp: update_last_edited_at_def)
  have ids': "map note_id (map (\<lambda>r. if note_id r = i then r\<lparr>content := c\<rparr> else r) d)
      = map note_id d"
    by (induction d) auto
  have inv_ids: "db_inv x = db_inv y" if "map note_id x = map note_id y" for x y :: db
  proof -
    have "list_all (\<lambda>r. 1 \<le> note_id r) z = list_all (\<lambda>v. 1 \<le> v) (map note_id z)" for z :: db
      by (simp add: list_all_iff)
    with that show ?thesis by (simp add: db_inv_def)
  qed
  assume "db_inv d"
  then show ?thesis
    using inv_ids [OF ids] inv_ids [OF ids']
    by (auto simp: SetNoteContent_def Let_def split: option.splits)
qed

lemma reachable_db_inv: "reachable d \<Longrightarrow> db_inv d"
  by (induction rule: reachable.induct)
    (simp_all add: db_inv_Nil db_inv_NewNote db_inv_DeleteNote db_inv_SetNoteContent)

lemma reachable_single_bounded:
  "1 \<le> n \<Longrightarrow> n \<le> 2147483648 \<longrightarrow> reachable
     [\<lparr>note_id = n, title = ''T'', content = ''C'', created_at = 0, last_edited_at = 0\<rparr>]"
proof (induction n rule: int_ge_induct)
  case base
  have "reachable (snd (NewNote \<lparr>clock = 0, failure = None\<rparr> ''T'' ''C'' []))"
    by (rule reachable_NewNote) (rule reachable_New)
  then show ?case
    by (simp add: NewNote_def maxStringLength_def new_rowid_def)
next
  case (step n)
  show ?case
  proof
    assume bound: "n + 1 \<le> 2147483648"
    let ?r = "\<lambda>k. \<lparr>note_id = k, title = ''T'', content = ''C'',
      created_at = 0 :: nat, last_edited_at = 0 :: nat\<rparr>"
    have "reachable [?r n]" using step bound by simp
    then have "reachable (snd (DeleteNote \<lparr>clock = 0, failure = None\<rparr> n
        (snd (NewNote \<lparr>clock = 0, failure = None\<rparr> ''T'' ''C'' [?r n]))))"
      by (intro reachable_DeleteNote reachable_NewNote)
    moreover have "snd (DeleteNote \<lparr>clock = 0, failure = None\<rparr> n
        (snd (NewNote \<lparr>clock = 0, failure = None\<rparr> ''T'' ''C'' [?r n]))) = [?r (n + 1)]"
      using step.hyps bound
      by (simp add: NewNote_def DeleteNote_def maxStringLength_def MaxInt32_def new_rowid_def)
    ultimately show "reachable [?r (n + 1)]" by simp
  qed
qed

lemma reachable_single:
  "1 \<le> n \<Longrightarrow> n \<le> 2147483648 \<Longrightarrow> reachable
     [\<lparr>note_id = n, title = ''T'', content = ''C'', created_at = 0, last_edited_at = 0\<rparr>]"
  using reachable_single_bounded by blast

subsection \<open>Reading a note\<close>

lemma GetNoteByID_ok:
  assumes "1 \<le> i" "i \<le> 2147483647" "failure e = None"
  shows "GetNoteByID e i d =
    (case filter (\<lambda>r. note_id r = i) d of [] \<Rightarrow> (Inl ErrNoRows, d) | r # _ \<Rightarrow> (Inr (Scan r), d))"
  using assms unfolding GetNoteByID_def validate_PInt by auto

subsection \<open>Updating and deleting\<close>

lemma SetNoteContent_ok:
  assumes "1 \<le> i" "i \<le> 2147483647" "1 \<le> length c" "length c \<le> 256000"
    and "failure e = None"
  shows "SetNoteContent e i c d =
    (if filter (\<lambda>r. note_id r = i) d = [] then (Some ErrNoRows, d)
     else (None, map (\<lambda>r. if note_id r = i
                          then r\<lparr>content := c, last_edited_at := clock e\<rparr> else r) d))"
proof -
  have same: "map (\<lambda>r. if note_id r = i then r\<lparr>content := c\<rparr> else r) d = d"
    if "filter (\<lambda>r. note_id r = i) d = []"
    using that by (induction d) (auto split: if_splits)
  have both: "update_last_edited_at n i (map (\<lambda>r. if note_id r = i then r\<lparr>content := c\<rparr> else r) d)
      = map (\<lambda>r. if note_id r = i then r\<lparr>content := c, last_edited_at := n\<rparr> else r) d" for n
    by (induction d) (auto simp: update_last_edited_at_def)
  show ?thesis
  proof (cases "filter (\<lambda>r. note_id r = i) d = []")
    case True
    with assms same [OF True] show ?thesis
      unfolding SetNoteContent_def validate_PInt_PStr by (auto simp: Let_def)
  next
    case False
    with assms show ?thesis
      unfolding SetNoteContent_def validate_PInt_PStr by (auto simp: Let_def both)
  qed
qed

lemma DeleteNote_ok:
  assumes "1 \<le> i" "i \<le> 2147483647" "failure e = None"
  shows "DeleteNote e i d =
    (if filter (\<lambda>r. note_id r = i) d = [] then (Inl ErrNoRows, d)
     else (Inr i, filter (\<lambda>r. note_id r \<noteq> i) d))"
proof -
  have same: "filter (\<lambda>r. note_id r \<noteq> i) d = d" if "filter (\<lambda>r. note_id r = i) d = []"
    using that by (induction d) (auto split: if_splits)
  show ?thesis
  proof (cases "filter (\<lambda>r. note_id r = i) d = []")
    case True
    with assms same [OF True] show ?thesis
      unfolding DeleteNote_def validate_PInt by (simp add: Let_def)
  next
    case False
    with assms show ?thesis
      unfolding DeleteNote_def validate_PInt by (simp add: Let_def)
  qed
qed

lemma filter_updated:
  "filter (\<lambda>r. note_id r = i) (map (\<lambda>r. if note_id r = i then f r else r) d)
     = map f (filter (\<lambda>r. note_id r = i) d)"
  if "\<And>r. note_id (f r) = note_id r"
  using that by (induction d) auto

subsection \<open>The claims about the storage\<close>

text \<open>
  Claim C3, as the code has it. For every note that \<open>GetNoteByID\<close> returns, a
  successful \<open>SetNoteContent(id, c)\<close> makes a later \<open>GetNoteByID(id)\<close> return the same
  note with content \<open>c\<close> and with \<open>lastEditedAt\<close> set to the engine's
  \<open>CURRENT_TIMESTAMP\<close> at the update, a reading in whole seconds; the id, the title and
  \<open>createdAt\<close> are unchanged. The new \<open>lastEditedAt\<close> is strictly later than the old
  one exactly when the clock's reading at the update is later than the old value.
\<close>

theorem C3_update_then_get:
  assumes "failure e = None" "failure e' = None"
    and "fst (GetNoteByID e0 i d) = Inr n"
    and "fst (SetNoteContent e i c d) = None"
  shows "fst (GetNoteByID e' i (snd (SetNoteContent e i c d)))
      = Inr (n\<lparr>Content := c, LastEditedAt := clock e\<rparr>)
    \<and> (LastEditedAt n < LastEditedAt (n\<lparr>Content := c, LastEditedAt := clock e\<rparr>)
        \<longleftrightarrow> LastEditedAt n < clock e)"
proof -
  from assms(3) have i: "1 \<le> i" "i \<le> 2147483647" and f0: "failure e0 = None"
    unfolding GetNoteByID_def validate_PInt by (auto split: if_splits option.splits)
  from assms(4) assms(1) have c: "1 \<le> length c" "length c \<le> 256000"
    unfolding SetNoteContent_def validate_PInt_PStr
    by (auto simp: Suc_le_eq split: if_splits option.splits)
  from assms(3) obtain r rs where rows: "filter (\<lambda>r. note_id r = i) d = r # rs" and n: "n = Scan r"
    unfolding GetNoteByID_ok [OF i f0] by (auto split: list.splits)
  have set: "SetNoteContent e i c d =
      (None, map (\<lambda>r. if note_id r = i
                       then r\<lparr>content := c, last_edited_at := clock e\<rparr> else r) d)"
    unfolding SetNoteContent_ok [OF i c assms(1)] using rows by simp
  have "filter (\<lambda>r. note_id r = i)
      (map (\<lambda>r. if note_id r = i then r\<lparr>content := c, last_edited_at := clock e\<rparr> else r) d)
      = map (\<lambda>r. r\<lparr>content := c, last_edited_at := clock e\<rparr>) (r # rs)"
    unfolding rows [symmetric] by (rule filter_updated) simp
  then have "fst (GetNoteByID e' i (snd (SetNoteContent e i c d)))
      = Inr (Scan (r\<lparr>content := c, last_edited_at := clock e\<rparr>))"
    unfolding GetNoteByID_ok [OF i assms(2)] set by simp
  then show ?thesis by (simp add: n Scan_def)
qed

theorem C3_update_then_get_witness:
  "fst (GetNoteByID \<lparr>clock = 9, failure = None\<rparr> 1
      (snd (SetNoteContent \<lparr>clock = 7, failure = None\<rparr> 1 ''C2''
        [\<lparr>note_id = 1, title = ''T'', content = ''C'', created_at = 5, last_edited_at = 5\<rparr>])))
   = Inr \<lparr>ID = 1, Title = ''T'', Content = ''C2'', CreatedAt = 5, LastEditedAt = 7\<rparr>"
  using C3_update_then_get [of "\<lparr>clock = 7, failure = None\<rparr>" "\<lparr>clock = 9, failure = None\<rparr>"
      "\<lparr>clock = 6, failure = None\<rparr>" 1
      "[\<lparr>note_id = 1, title = ''T'', content = ''C'', created_at = 5, last_edited_at = 5\<rparr>]"
      "\<lparr>ID = 1, Title = ''T'', Content = ''C'', CreatedAt = 5, LastEditedAt = 5\<rparr>" "''C2''"]
  by (simp add: GetNoteByID_def SetNoteContent_def MaxInt32_def maxStringLength_def Scan_def
      update_last_edited_at_def)

text \<open>
  Claim C3 as the specification states it (``strictly advances \<open>lastEditedAt\<close> beyond
  its prior value'') fails when the update runs within the second of the note's last
  change: a note created and updated at the clock reading 100 has \<open>lastEditedAt = 100\<close>
  before and after.
\<close>

theorem C3_counterexample:
  "fst (NewNote \<lparr>clock = 100, failure = None\<rparr> ''T'' ''C'' []) = Inr 1
   \<and> fst (SetNoteContent \<lparr>clock = 100, failure = None\<rparr> 1 ''C2''
        (snd (NewNote \<lparr>clock = 100, failure = None\<rparr> ''T'' ''C'' []))) = None
   \<and> fst (GetNoteByID \<lparr>clock = 101, failure = None\<rparr> 1
        (snd (NewNote \<lparr>clock = 100, failure = None\<rparr> ''T'' ''C'' [])))
     = Inr \<lparr>ID = 1, Title = ''T'', Content = ''C'', CreatedAt = 100, LastEditedAt = 100\<rparr>
   \<and> fst (GetNoteByID \<lparr>clock = 101, failure = None\<rparr> 1
        (snd (SetNoteContent \<lparr>clock = 100, failure = None\<rparr> 1 ''C2''
          (snd (NewNote \<lparr>clock = 100, failure = None\<rparr> ''T'' ''C'' [])))))
     = Inr \<lparr>ID = 1, Title = ''T'', Content = ''C2'', CreatedAt = 100, LastEditedAt = 100\<rparr>
   \<and> \<not> (100 :: nat) < 100"
  by (simp add: NewNote_def GetNoteByID_def SetNoteContent_def MaxInt32_def maxStringLength_def
      Scan_def update_last_edited_at_def new_rowid_def)

text \<open>
  Claim C4, as the code has it. For every valid title \<open>t\<close> and content \<open>c\<close>, on a table
  with unique positive ids, \<open>NewNote(t, c)\<close> returns a positive id (one more than the
  largest id stored); and when that id is at most \<open>2^31 - 1\<close>, \<open>GetNoteByID\<close> on it
  afterwards returns the note with that id, title \<open>t\<close>, content \<open>c\<close> and
  \<open>createdAt = lastEditedAt\<close>.
\<close>

theorem C4_create_then_get:
  assumes "1 \<le> length t" "length t \<le> 256000" "1 \<le> length c" "length c \<le> 256000"
    and "failure e = None" "failure e' = None" "db_inv d"
  shows "fst (NewNote e t c d) = Inr (new_rowid d) \<and> 0 < new_rowid d
    \<and> (new_rowid d \<le> 2147483647 \<longrightarrow>
        fst (GetNoteByID e' (new_rowid d) (snd (NewNote e t c d)))
        = Inr \<lparr>ID = new_rowid d, Title = t, Content = c,
               CreatedAt = clock e, LastEditedAt = clock e\<rparr>)"
proof -
  note new = NewNote_ok [OF assms(1-5), of d]
  have pos: "0 < new_rowid d" using assms(7) by (rule new_rowid_positive)
  have get: "fst (GetNoteByID e' (new_rowid d) (snd (NewNote e t c d)))
      = Inr \<lparr>ID = new_rowid d, Title = t, Content = c,
             CreatedAt = clock e, LastEditedAt = clock e\<rparr>"
    if "new_rowid d \<le> 2147483647"
  proof -
    have "1 \<le> new_rowid d" using pos by simp
    from GetNoteByID_ok [OF this that assms(6)] show ?thesis
      by (simp add: new new_rowid_fresh Scan_def)
  qed
  from new pos get show ?thesis by simp
qed

theorem C4_create_then_get_witness:
  "fst (NewNote \<lparr>clock = 5, failure = None\<rparr> ''T'' ''C'' []) = Inr 1
   \<and> fst (GetNoteByID \<lparr>clock = 9, failure = None\<rparr> 1
        (snd (NewNote \<lparr>clock = 5, failure = None\<rparr> ''T'' ''C'' [])))
     = Inr \<lparr>ID = 1, Title = ''T'', Content = ''C'', CreatedAt = 5, LastEditedAt = 5\<rparr>"
  using C4_create_then_get [of "''T''" "''C''" "\<lparr>clock = 5, failure = None\<rparr>"
      "\<lparr>clock = 9, failure = None\<rparr>" "[]"]
  by (simp add: db_inv_def new_rowid_def)

text \<open>
  Claim C4 as the specification states it fails at the upper end of the id range that
  \<open>validateSQLParam\<close> accepts: on a table the program can build, whose largest id is
  \<open>2^31 - 1\<close>, \<open>NewNote\<close> returns \<open>2^31\<close>, and \<open>GetNoteByID\<close> on that id fails with
  ``invalid number''.
\<close>

theorem C4_counterexample:
  "reachable [\<lparr>note_id = 2147483647, title = ''T'', content = ''C'',
               created_at = 0, last_edited_at = 0\<rparr>]
   \<and> fst (NewNote \<lparr>clock = 1, failure = None\<rparr> ''T'' ''C''
        [\<lparr>note_id = 2147483647, title = ''T'', content = ''C'',
          created_at = 0, last_edited_at = 0\<rparr>]) = Inr 2147483648
   \<and> fst (GetNoteByID \<lparr>clock = 2, failure = None\<rparr> 2147483648
        (snd (NewNote \<lparr>clock = 1, failure = None\<rparr> ''T'' ''C''
          [\<lparr>note_id = 2147483647, title = ''T'', content = ''C'',
            created_at = 0, last_edited_at = 0\<rparr>]))) = Inl invalidNum"
proof -
  have "reachable [\<lparr>note_id = 2147483647, title = ''T'', content = ''C'',
               created_at = 0, last_edited_at = 0\<rparr>]"
    by (rule reachable_single) simp_all
  then show ?thesis
    by (simp add: NewNote_def GetNoteByID_def maxStringLength_def MaxInt32_def new_rowid_def)
qed

text \<open>
  Claim C5. For every valid id with no matching note, \<open>DeleteNote(id)\<close>,
  \<open>SetNoteContent(id, content)\<close> (with a valid content) and \<open>GetNoteByID(id)\<close> each
  fail with \<open>NotFound\<close> (\<open>sql.ErrNoRows\<close>); a successful \<open>DeleteNote(id)\<close> returns the
  id it was given, and \<open>GetNoteByID(id)\<close> after it fails with \<open>NotFound\<close>. (The engine
  does not fail on the statements.)
\<close>

theorem C5_not_found:
  assumes "1 \<le> i" "i \<le> 2147483647"
    and "failure e = None" "failure e' = None"
  shows "(i \<notin> note_id ` set d \<longrightarrow>
        fst (DeleteNote e i d) = Inl ErrNoRows
        \<and> (1 \<le> length c \<and> length c \<le> 256000 \<longrightarrow> fst (SetNoteContent e i c d) = Some ErrNoRows)
        \<and> fst (GetNoteByID e i d) = Inl ErrNoRows)
    \<and> (\<forall>j. fst (DeleteNote e i d) = Inr j \<longrightarrow>
        j = i \<and> fst (GetNoteByID e' i (snd (DeleteNote e i d))) = Inl ErrNoRows)
    \<and> NotFound ErrNoRows"
proof -
  have none: "filter (\<lambda>r. note_id r = i) d = []" if "i \<notin> note_id ` set d"
    using that by (auto simp: filter_empty_conv)
  have gone: "filter (\<lambda>r. note_id r = i) (filter (\<lambda>r. note_id r \<noteq> i) d) = []"
    by (auto simp: filter_empty_conv)
  have a: "fst (DeleteNote e i d) = Inl ErrNoRows" if "i \<notin> note_id ` set d"
    unfolding DeleteNote_ok [OF assms(1,2,3)] using none [OF that] by simp
  have b: "fst (SetNoteContent e i c d) = Some ErrNoRows"
    if "i \<notin> note_id ` set d" "1 \<le> length c \<and> length c \<le> 256000"
    using SetNoteContent_ok [OF assms(1,2) _ _ assms(3), of c d] none [OF that(1)] that(2) by simp
  have g: "fst (GetNoteByID e i d) = Inl ErrNoRows" if "i \<notin> note_id ` set d"
    unfolding GetNoteByID_ok [OF assms(1,2,3)] using none [OF that] by simp
  have del: "j = i \<and> fst (GetNoteByID e' i (snd (DeleteNote e i d))) = Inl ErrNoRows"
    if "fst (DeleteNote e i d) = Inr j" for j
    using that unfolding DeleteNote_ok [OF assms(1,2,3)] GetNoteByID_ok [OF assms(1,2,4)]
    by (auto simp: gone split: if_splits)
  from a b g del show ?thesis by (simp add: NotFound_def)
qed

theorem C5_not_found_witness:
  "fst (DeleteNote \<lparr>clock = 0, failure = None\<rparr> 2
      [\<lparr>note_id = 1, title = ''T'', content = ''C'', created_at = 5, last_edited_at = 5\<rparr>])
   = Inl ErrNoRows
   \<and> fst (SetNoteContent \<lparr>clock = 0, failure = None\<rparr> 2 ''C2''
      [\<lparr>note_id = 1, title = ''T'', content = ''C'', created_at = 5, last_edited_at = 5\<rparr>])
   = Some ErrNoRows
   \<and> fst (GetNoteByID \<lparr>clock = 0, failure = None\<rparr> 2
      [\<lparr>note_id = 1, title = ''T'', content = ''C'', created_at = 5, last_edited_at = 5\<rparr>])
   = Inl ErrNoRows
   \<and> fst (DeleteNote \<lparr>clock = 0, failure = None\<rparr> 1
      [\<lparr>note_id = 1, title = ''T'', content = ''C'', created_at = 5, last_edited_at = 5\<rparr>])
   = Inr 1
   \<and> fst (GetNoteByID \<lparr>clock = 1, failure = None\<rparr> 1
      (snd (DeleteNote \<lparr>clock = 0, failure = None\<rparr> 1
        [\<lparr>note_id = 1, title = ''T'', content = ''C'', created_at = 5, last_edited_at = 5\<rparr>])))
   = Inl ErrNoRows"
proof -
  let ?e = "\<lparr>clock = 0, failure = None\<rparr>" and ?e' = "\<lparr>clock = 1, failure = None\<rparr>"
  let ?d = "[\<lparr>note_id = 1, title = ''T'', content = ''C'',
              created_at = 5 :: nat, last_edited_at = 5 :: nat\<rparr>]"
  have absent: "2 \<notin> note_id ` set ?d" by simp
  have len: "1 \<le> length ''C2'' \<and> length ''C2'' \<le> 256000" by simp
  have deleted: "fst (DeleteNote ?e 1 ?d) = Inr 1"
    by (simp add: DeleteNote_def MaxInt32_def)
  have two: "(1 :: int) \<le> 2" "(2 :: int) \<le> 2147483647"
    and one: "(1 :: int) \<le> 1" "(1 :: int) \<le> 2147483647"
    and ok: "failure ?e = None" "failure ?e' = None" by simp_all
  from C5_not_found [OF two ok, of ?d "''C2''"] absent len
  have "fst (DeleteNote ?e 2 ?d) = Inl ErrNoRows
      \<and> fst (SetNoteContent ?e 2 ''C2'' ?d) = Some ErrNoRows
      \<and> fst (GetNoteByID ?e 2 ?d) = Inl ErrNoRows"
    by blast
  moreover from C5_not_found [OF one ok, of ?d "''C2''"] deleted
  have "fst (GetNoteByID ?e' 1 (snd (DeleteNote ?e 1 ?d))) = Inl ErrNoRows"
    by blast
  ultimately show ?thesis using deleted by blast
qed

text \<open>
  Claim C8, as the code has it. A note's content may not be empty: \<open>NewNote\<close> with an
  empty content fails with ``invalid param length'' for every title and leaves the table
  unchanged, \<open>SetNoteContent\<close> with an empty content fails with \<open>InvalidParameter\<close>, and
  the \<open>new\<close> command given an empty content prints a prompt and stores nothing.
\<close>

theorem C8_content_not_empty:
  "NewNote e t [] d = (Inl invalidParamLength, d)
   \<and> (\<exists>err. SetNoteContent e i [] d = (Some err, d) \<and> InvalidParameter err)
   \<and> (newNoteCommand storage [t, []] s = (([''Please provide a title for new note.\<newline>''], None), s)
      \<or> newNoteCommand storage [t, []] s = (([''Please provide content for new note.\<newline>''], None), s))"
proof -
  have a: "NewNote e t [] d = (Inl invalidParamLength, d)"
    unfolding NewNote_def validate_PStr_PStr by simp
  have b: "\<exists>err. SetNoteContent e i [] d = (Some err, d) \<and> InvalidParameter err"
    unfolding SetNoteContent_def validate_PInt_PStr by (simp add: InvalidParameter_def)
  have c: "newNoteCommand storage [t, []] s = (([''Please provide a title for new note.\<newline>''], None), s)
      \<or> newNoteCommand storage [t, []] s = (([''Please provide content for new note.\<newline>''], None), s)"
    by (simp add: newNoteCommand_def Args_First_def Args_Get_def)
  from a b c show ?thesis by blast
qed

theorem C8_content_not_empty_witness:
  "NewNote \<lparr>clock = 0, failure = None\<rparr> ''T'' [] [] = (Inl invalidParamLength, [])
   \<and> SetNoteContent \<lparr>clock = 0, failure = None\<rparr> 1 [] [] = (Some invalidParamLength, [])
   \<and> newNoteCommand (sqlite_Storage \<lparr>clock = 0, failure = None\<rparr>) [''T'', []] []
       = (([''Please provide content for new note.\<newline>''], None), [])"
  using C8_content_not_empty [of "\<lparr>clock = 0, failure = None\<rparr>" "''T''" "[]" 1
      "sqlite_Storage \<lparr>clock = 0, failure = None\<rparr>" "[]"]
  by (simp add: SetNoteContent_def MaxInt32_def maxStringLength_def newNoteCommand_def Args_First_def Args_Get_def)

text \<open>
  Claim C8 as the specification states it (``for some valid title, creating a note with
  empty content succeeds'') is false: no call of \<open>NewNote\<close> with an empty content
  returns an id.
\<close>

theorem C8_counterexample:
  "\<not> (\<exists>e t d i. fst (NewNote e t [] d) = Inr i)"
  by (simp add: NewNote_def maxStringLength_def)




subsection \<open>Matching\<close>








lemma prefix_literal_iff: "prefix_literal k s \<longleftrightarrow> (\<exists>post. s = k @ post)"
  by (induction k s rule: prefix_literal.induct) auto

lemma contains_literal_meaning:
  "contains_literal k s \<longleftrightarrow> (\<exists>pre post. s = pre @ k @ post)"
proof (induction s)
  case Nil
  then show ?case by (simp add: prefix_literal_iff)
next
  case (Cons c cs)
  show ?case
  proof
    assume "contains_literal k (c # cs)"
    then consider "prefix_literal k (c # cs)" | "contains_literal k cs" by auto
    then show "\<exists>pre post. c # cs = pre @ k @ post"
    proof cases
      case 1
      then obtain post where "c # cs = [] @ k @ post" by (auto simp: prefix_literal_iff)
      then show ?thesis by blast
    next
      case 2
      with Cons obtain pre post where "cs = pre @ k @ post" by auto
      then have "c # cs = (c # pre) @ k @ post" by simp
      then show ?thesis by blast
    qed
  next
    assume "\<exists>pre post. c # cs = pre @ k @ post"
    then obtain pre post where pp: "c # cs = pre @ k @ post" by auto
    show "contains_literal k (c # cs)"
    proof (cases pre)
      case Nil
      with pp have "prefix_literal k (c # cs)" by (auto simp: prefix_literal_iff)
      then show ?thesis by simp
    next
      case (Cons a pre')
      with pp have "cs = pre' @ k @ post" by auto
      with Cons.IH show ?thesis by auto
    qed
  qed
qed




subsection \<open>The claims about the search\<close>






subsection \<open>The program\<close>

lemma main_initialized:
  assumes "open_error w = None"
  shows "main w tfmt argv =
    (case Run (NewCLI (sqlite_Storage (stmt w)) tfmt) argv
            (case db_file w of None \<Rightarrow> [] | Some d \<Rightarrow> d) of
       None \<Rightarrow> None
     | Some ((out, err), d') \<Rightarrow>
         Some (out
            @ (case err of None \<Rightarrow> [] | Some e \<Rightarrow> [''Error: '' @ Error e @ ''\<newline>''])
            @ (case close_error w of
                 None \<Rightarrow> []
               | Some e \<Rightarrow> [''Error closing storage: '' @ Error e @ ''\<newline>'']),
            0, Some d'))"
  using assms by (simp add: main_def New_def split: option.splits)


subsection \<open>The claims about the command line\<close>

text \<open>
  Claim C6, as the code has it. When the storage cannot be initialised, the program
  prints \<open>Error initializing storage: \<close> and the error to standard output and exits
  with code 1. Otherwise, when the command returns no error (success, or a prompt for a
  missing argument) the exit code is 0; and when the command returns an error, the error
  is printed to standard output after the command's own output, prefixed by \<open>Error: \<close>.
  (The storage closes without an error.)
\<close>

theorem C6_exit_codes:
  "(open_error w = Some err \<longrightarrow>
      main w tfmt argv
      = Some ([''Error initializing storage: '' @ Error err @ ''\<newline>''], 1, db_file w))
   \<and> (open_error w = None \<and> close_error w = None
       \<and> Run (NewCLI (sqlite_Storage (stmt w)) tfmt) argv
            (case db_file w of None \<Rightarrow> [] | Some d \<Rightarrow> d) = Some ((out, None), d')
      \<longrightarrow> main w tfmt argv = Some (out, 0, Some d'))
   \<and> (open_error w = None \<and> close_error w = None
       \<and> Run (NewCLI (sqlite_Storage (stmt w)) tfmt) argv
            (case db_file w of None \<Rightarrow> [] | Some d \<Rightarrow> d) = Some ((out, Some err), d')
      \<longrightarrow> (\<exists>code. main w tfmt argv
            = Some (out @ [''Error: '' @ Error err @ ''\<newline>''], code, Some d')))"
proof -
  have a: "main w tfmt argv
      = Some ([''Error initializing storage: '' @ Error err @ ''\<newline>''], 1, db_file w)"
    if "open_error w = Some err"
    using that by (simp add: main_def New_def)
  have b: "main w tfmt argv = Some (out, 0, Some d')"
    if "open_error w = None \<and> close_error w = None
       \<and> Run (NewCLI (sqlite_Storage (stmt w)) tfmt) argv
            (case db_file w of None \<Rightarrow> [] | Some d \<Rightarrow> d) = Some ((out, None), d')"
    using that by (simp add: main_initialized)
  have c: "\<exists>code. main w tfmt argv
            = Some (out @ [''Error: '' @ Error err @ ''\<newline>''], code, Some d')"
    if "open_error w = None \<and> close_error w = None
       \<and> Run (NewCLI (sqlite_Storage (stmt w)) tfmt) argv
            (case db_file w of None \<Rightarrow> [] | Some d \<Rightarrow> d) = Some ((out, Some err), d')"
    using that by (simp add: main_initialized)
  from a b c show ?thesis by blast
qed

theorem C6_exit_codes_witness:
  "main \<lparr>db_file = None, open_error = Some (DriverError ''unable to open database file''),
         stmt = \<lparr>clock = 7, failure = None\<rparr>, close_error = None\<rparr> decimal
       [''go-notes'', ''new'', ''T'', ''C'']
   = Some ([''Error initializing storage: unable to open database file\<newline>''], 1, None)
   \<and> main \<lparr>db_file = None, open_error = None,
         stmt = \<lparr>clock = 7, failure = None\<rparr>, close_error = None\<rparr> decimal
       [''go-notes'', ''new'', ''T'', ''C'']
   = Some ([''Created a new note with ID 1\<newline>''], 0,
       Some [\<lparr>note_id = 1, title = ''T'', content = ''C'', created_at = 7, last_edited_at = 7\<rparr>])"
proof -
  let ?w = "\<lparr>db_file = None, open_error = None,
         stmt = \<lparr>clock = 7, failure = None\<rparr>, close_error = None\<rparr>"
  let ?w' = "\<lparr>db_file = None, open_error = Some (DriverError ''unable to open database file''),
         stmt = \<lparr>clock = 7, failure = None\<rparr>, close_error = None\<rparr>"
  have init: "open_error ?w' = Some (DriverError ''unable to open database file'')" by simp
  have run: "open_error ?w = None \<and> close_error ?w = None
       \<and> Run (NewCLI (sqlite_Storage (stmt ?w)) decimal) [''go-notes'', ''new'', ''T'', ''C'']
            (case db_file ?w of None \<Rightarrow> [] | Some d \<Rightarrow> d)
         = Some (([''Created a new note with ID 1\<newline>''], None),
             [\<lparr>note_id = 1, title = ''T'', content = ''C'', created_at = 7, last_edited_at = 7\<rparr>])"
    by (simp add: Run_def NewCLI_def positional_def newNoteCommand_def Args_First_def
        Args_Get_def sqlite_Storage_def NewNote_def maxStringLength_def new_rowid_def Itoa_def
        decimal.simps)
  from C6_exit_codes [of ?w' "DriverError ''unable to open database file''" decimal
      "[''go-notes'', ''new'', ''T'', ''C'']"] init
  have "main ?w' decimal [''go-notes'', ''new'', ''T'', ''C'']
      = Some ([''Error initializing storage: unable to open database file\<newline>''], 1, None)"
    by simp
  moreover from C6_exit_codes [of ?w _ decimal "[''go-notes'', ''new'', ''T'', ''C'']"
      "[''Created a new note with ID 1\<newline>'']"
      "[\<lparr>note_id = 1, title = ''T'', content = ''C'', created_at = 7, last_edited_at = 7\<rparr>]"] run
  have "main ?w decimal [''go-notes'', ''new'', ''T'', ''C'']
      = Some ([''Created a new note with ID 1\<newline>''], 0,
       Some [\<lparr>note_id = 1, title = ''T'', content = ''C'', created_at = 7, last_edited_at = 7\<rparr>])"
    by blast
  ultimately show ?thesis by blast
qed

text \<open>
  Claim C6 as the specification states it fails in two places. An error of the storage
  while a command runs (the engine failing on the query of \<open>list\<close>, or \<open>delete 5\<close> on
  an empty table) is printed with the prefix \<open>Error: \<close>, and the exit code is 0: \<open>main\<close>
  returns after printing. And the message of an initialisation error does not start with
  \<open>Error: \<close>.
\<close>

theorem C6_counterexample:
  "main \<lparr>db_file = None, open_error = None,
         stmt = \<lparr>clock = 7, failure = Some (DriverError ''disk I/O error'')\<rparr>,
         close_error = None\<rparr> decimal [''go-notes'', ''list'']
   = Some ([''Error listing notes: disk I/O error\<newline>'', ''Error: disk I/O error\<newline>''],
       0, Some [])
   \<and> main \<lparr>db_file = None, open_error = None,
         stmt = \<lparr>clock = 7, failure = None\<rparr>, close_error = None\<rparr> decimal
       [''go-notes'', ''delete'', ''5'']
   = Some ([''Error: Error deleting note: sql: no rows in result set\<newline>\<newline>''], 0, Some [])
   \<and> main \<lparr>db_file = None, open_error = Some (DriverError ''unable to open database file''),
         stmt = \<lparr>clock = 7, failure = None\<rparr>, close_error = None\<rparr> decimal
       [''go-notes'', ''list'']
   = Some ([''Error initializing storage: unable to open database file\<newline>''], 1, None)
   \<and> take 7 ''Error initializing storage: unable to open database file\<newline>'' \<noteq> ''Error: ''"
  by (simp add: main_def New_def Run_def NewCLI_def positional_def listNotesCommand_def
      deleteNoteCommand_def Args_First_def Atoi_def digit_val_def
      sqlite_Storage_def GetAllNotes_def DeleteNote_def MaxInt32_def)




end
